theory Spec2Isabelle
  imports Complex_Main "HOL-Library.Sublist"
begin

section \<open>KNU token distribution (tools/knu\_distribution.py)\<close>

text \<open>
  The development embeds the allocation engine of \<^verbatim>\<open>tools/knu_distribution.py\<close>:
  eligibility validation, weight calculation, the conversion of weights into integer
  deg amounts, and the execution of rewards through the external token service.

  Conventions of the embedding.
  \<^item> A Python \<^verbatim>\<open>float\<close> is modelled by a \<^typ>\<open>real\<close> and every arithmetic operation is
    exact: rounding, infinities and NaN are outside the model. Statements that the
    source makes "up to floating-point tolerance" are therefore exact equations here.
  \<^item> \<^verbatim>\<open>int(x)\<close> on a float truncates toward zero (\<open>py_int\<close>).
  \<^item> An exception is a value \<open>Inl e\<close> of a sum type; the console, the ledger file and
    the calls made to the external service are fields of an explicit \<open>world\<close>.
    Starting the external process and appending to the ledger file do not fail by
    themselves: an \<^verbatim>\<open>OSError\<close> is outside the model.
  \<^item> A \<^typ>\<open>string\<close> is a list of 8-bit characters, read as the code points below 256.
\<close>

subsection \<open>Exceptions and dataclasses\<close>

datatype error =
    DistributionError string
  | ValidationError string
  | ConfigError string

record KNUEntry =
  knu_id :: string
  knot_id :: string
  owner :: string
  E_pred :: real
  dR_primary :: real
  dR_adj_sum :: real
  status :: string
  artifacts :: "string list"
  validated_by :: string
  validated_at :: string

text \<open>\<^verbatim>\<open>KNOTPool\<close>; the field \<^verbatim>\<open>knot_id\<close> is renamed, the name being taken by \<open>KNUEntry\<close>.\<close>

record KNOTPool =
  pool_knot_id :: string
  pool_tt :: real
  description :: string

text \<open>\<^verbatim>\<open>Distribution\<close>; \<^verbatim>\<open>knu_id\<close> and \<^verbatim>\<open>owner\<close> are renamed for the same reason.\<close>

record Distribution =
  dist_knu_id :: string
  dist_owner :: string
  weight :: real
  tokens_tt :: real
  tokens_deg :: int
  tx_id :: string

subsection \<open>Configuration\<close>

text \<open>
  One entry of the \<^verbatim>\<open>"pools"\<close> object of \<^verbatim>\<open>knu_pools.json\<close>, and the parts of the file
  that the engine reads. A key that \<^verbatim>\<open>dict.get\<close> reads with a default is an option.
\<close>

record pool_data =
  pd_pool_tt :: real
  pd_description :: "string option"

record pools_config =
  pools :: "string \<rightharpoonup> pool_data"
  param_alpha :: "real option"
  param_lambda_spillover :: "real option"
  required_status :: "string list option"
  require_artifacts :: "bool option"
  require_validation :: "bool option"

text \<open>The attributes of a \<^verbatim>\<open>KNUDistributor\<close> instance that the engine uses.\<close>

record KNUDistributor =
  pools_data :: pools_config
  alpha :: real
  lambda_spillover :: real

definition dict_get :: "'a option \<Rightarrow> 'a \<Rightarrow> 'a" where
  "dict_get v dflt = (case v of None \<Rightarrow> dflt | Some x \<Rightarrow> x)"

definition load_configs :: "pools_config \<Rightarrow> KNUDistributor" where
  "load_configs pd =
     \<lparr>pools_data = pd,
      alpha = dict_get (param_alpha pd) 0.30,
      lambda_spillover = dict_get (param_lambda_spillover pd) 0.50\<rparr>"

definition load_pool_config :: "KNUDistributor \<Rightarrow> string \<Rightarrow> error + KNOTPool" where
  "load_pool_config self k =
     (case pools (pools_data self) k of
        None \<Rightarrow> Inl (ConfigError (''KNOT '' @ k @ '' not found in pools config''))
      | Some pd \<Rightarrow>
          Inr \<lparr>pool_knot_id = k, pool_tt = pd_pool_tt pd,
               description = dict_get (pd_description pd) ''''\<rparr>)"

subsection \<open>Weights\<close>

definition total_effort :: "KNUEntry list \<Rightarrow> real" where
  "total_effort knus = sum_list (map E_pred knus)"

definition impacts :: "real \<Rightarrow> KNUEntry list \<Rightarrow> real list" where
  "impacts lambda_spill knus =
     map (\<lambda>knu. dR_primary knu + lambda_spill * dR_adj_sum knu) knus"

definition total_impact :: "real \<Rightarrow> KNUEntry list \<Rightarrow> real" where
  "total_impact lambda_spill knus = sum_list (impacts lambda_spill knus)"

definition effort_norm :: "KNUEntry list \<Rightarrow> real list" where
  "effort_norm knus =
     (if total_effort knus = 0 then replicate (length knus) 0
      else map (\<lambda>knu. E_pred knu / total_effort knus) knus)"

definition impact_norm :: "real \<Rightarrow> KNUEntry list \<Rightarrow> real list" where
  "impact_norm lambda_spill knus =
     (if total_impact lambda_spill knus = 0 then replicate (length knus) 0
      else map (\<lambda>imp. imp / total_impact lambda_spill knus) (impacts lambda_spill knus))"

text \<open>The weights before the final normalisation.\<close>

definition raw_weights :: "real \<Rightarrow> real \<Rightarrow> KNUEntry list \<Rightarrow> real list" where
  "raw_weights a lambda_spill knus =
     map (\<lambda>i. a * effort_norm knus ! i + (1 - a) * impact_norm lambda_spill knus ! i)
       [0..<length knus]"

text \<open>\<^verbatim>\<open>x if x is not None else d\<close>, for the two optional arguments.\<close>

definition if_not_None :: "'a option \<Rightarrow> 'a \<Rightarrow> 'a" where
  "if_not_None x d = (case x of Some v \<Rightarrow> v | None \<Rightarrow> d)"

text \<open>
  \<^verbatim>\<open>calculate_weights(knus, alpha, lambda_spill)\<close>; the two optional arguments default to
  the attributes of the instance.
\<close>

definition calculate_weights ::
  "KNUDistributor \<Rightarrow> KNUEntry list \<Rightarrow> real option \<Rightarrow> real option \<Rightarrow> (KNUEntry \<times> real) list" where
  "calculate_weights self knus alpha_arg lambda_arg =
     (if knus = [] then []
      else
        let a = if_not_None alpha_arg (alpha self);
            lambda_spill = if_not_None lambda_arg (lambda_spillover self);
            weights = raw_weights a lambda_spill knus;
            total_weight = sum_list weights;
            weights = (if total_weight > 0 then map (\<lambda>w. w / total_weight) weights
                       else weights)
        in zip knus weights)"

subsection \<open>Eligibility\<close>

text \<open>
  \<^verbatim>\<open>repr\<close> of a string and of a list of strings, which the f-string of the status
  message applies to \<^verbatim>\<open>required_status\<close>: the quote is the double quote when the string
  has a single quote and no double quote, otherwise the single quote; the backslash,
  the chosen quote, tab, newline and carriage return are escaped, and a character
  that is not printable is written as a hexadecimal escape.
\<close>

definition hex_digit :: "nat \<Rightarrow> char" where
  "hex_digit n = ''0123456789abcdef'' ! (n mod 16)"

definition py_printable :: "char \<Rightarrow> bool" where
  "py_printable c =
     (let n = of_char c :: nat
      in (32 \<le> n \<and> n \<le> 126) \<or> (161 \<le> n \<and> n \<noteq> 173))"

definition py_repr_char :: "char \<Rightarrow> char \<Rightarrow> string" where
  "py_repr_char quote c =
     (if c = CHR 0x5C then [CHR 0x5C, CHR 0x5C]
      else if c = quote then [CHR 0x5C, quote]
      else if c = CHR 0x09 then [CHR 0x5C, CHR ''t'']
      else if c = CHR 0x0A then [CHR 0x5C, CHR ''n'']
      else if c = CHR 0x0D then [CHR 0x5C, CHR ''r'']
      else if \<not> py_printable c
        then [CHR 0x5C, CHR ''x'', hex_digit (of_char c div 16), hex_digit (of_char c)]
      else [c])"

definition py_repr_str :: "string \<Rightarrow> string" where
  "py_repr_str s =
     (let quote = (if CHR 0x27 \<in> set s \<and> CHR 0x22 \<notin> set s then CHR 0x22 else CHR 0x27)
      in [quote] @ concat (map (py_repr_char quote) s) @ [quote])"

fun py_join :: "string \<Rightarrow> string list \<Rightarrow> string" where
  "py_join sep [] = []"
| "py_join sep [x] = x"
| "py_join sep (x # y # ys) = x @ sep @ py_join sep (y # ys)"

definition py_repr_list :: "string list \<Rightarrow> string" where
  "py_repr_list xs = ''['' @ py_join '', '' (map py_repr_str xs) @ '']''"

definition validate_eligibility :: "KNUDistributor \<Rightarrow> KNUEntry \<Rightarrow> bool \<times> string" where
  "validate_eligibility self knu =
     (let req_status = dict_get (required_status (pools_data self)) [''accepted'', ''merged''];
          req_artifacts = dict_get (require_artifacts (pools_data self)) True;
          req_validation = dict_get (require_validation (pools_data self)) True
      in if status knu \<notin> set req_status
           then (False, ''Status '' @ [CHR 0x27] @ status knu @ [CHR 0x27]
                          @ '' not in required: '' @ py_repr_list req_status)
         else if req_artifacts \<and> artifacts knu = []
           then (False, ''No artifacts provided (required)'')
         else if req_validation \<and> validated_by knu = []
           then (False, ''No validator specified (required)'')
         else if req_validation \<and> validated_at knu = []
           then (False, ''No validation timestamp (required)'')
         else (True, []))"

subsection \<open>The external reward service, the ledger and the console\<close>

text \<open>
  What \<^verbatim>\<open>subprocess.run\<close> comes back with: a completed process with its return code,
  standard output and standard error, or a \<^verbatim>\<open>SubprocessError\<close>.
\<close>

datatype proc_result =
    Completed int string string
  | SubprocessError string

text \<open>
  The environment of a run: the outcome of the \<open>n\<close>-th call of the reward command as a
  function of its \<^verbatim>\<open>--to\<close> and \<^verbatim>\<open>--tt\<close> arguments, and the clock.
\<close>

record environment =
  service :: "nat \<Rightarrow> string \<Rightarrow> real \<Rightarrow> proc_result"
  now :: "nat \<Rightarrow> string"

text \<open>The \<^verbatim>\<open>metadata\<close> dictionary that \<^verbatim>\<open>distribute\<close> builds for one allocation.\<close>

record metadata =
  md_timestamp :: string
  md_knot_id :: string
  md_knu_id :: string
  md_owner :: string
  md_E_pred :: real
  md_dR_primary :: real
  md_dR_adj_sum :: real
  md_weight :: real
  md_tokens_tt :: real
  md_tokens_deg :: int
  md_validated_by :: string

text \<open>A line of the ledger file: the header, or the row of one executed allocation.\<close>

datatype ledger_line = Header | Row metadata string

text \<open>The lines that the source prints, on standard output or standard error.\<close>

datatype event =
    Skipping string string
  | Skipping_other_knot string string string
  | Rewarded string string real int string
  | Failed_to_reward string error
  | Dry_run string string real int

text \<open>
  The state outside the process: the reward commands issued so far, the ledger file
  (\<open>None\<close> when it does not exist) and the console.
\<close>

record world =
  calls :: "(string \<times> real) list"
  ledger :: "ledger_line list option"
  console :: "event list"

definition print :: "event \<Rightarrow> world \<Rightarrow> world" where
  "print e w = w\<lparr>console := console w @ [e]\<rparr>"

definition ledger_lines :: "world \<Rightarrow> ledger_line list" where
  "ledger_lines w = (case ledger w of None \<Rightarrow> [] | Some ls \<Rightarrow> ls)"

definition log_to_csv :: "metadata \<Rightarrow> string \<Rightarrow> world \<Rightarrow> world" where
  "log_to_csv md tx w =
     (let file_exists = (ledger w \<noteq> None);
          old = ledger_lines w;
          header = (if \<not> file_exists \<or> old = [] then [Header] else [])
      in w\<lparr>ledger := Some (old @ header @ [Row md tx])\<rparr>)"

subsection \<open>Executing one reward\<close>

text \<open>
  \<^verbatim>\<open>re.search(r'(TX-\d{6})', stdout)\<close>: the leftmost place where \<^verbatim>\<open>TX-\<close> is followed by
  six digits; among the code points below 256 the digit class is \<^verbatim>\<open>0\<close> to \<^verbatim>\<open>9\<close>.
\<close>

definition is_digit :: "char \<Rightarrow> bool" where
  "is_digit c = (c \<in> set ''0123456789'')"

definition tx_match_at :: "string \<Rightarrow> bool" where
  "tx_match_at s =
     (9 \<le> length s \<and> take 3 s = ''TX-'' \<and> list_all is_digit (take 6 (drop 3 s)))"

fun re_search_tx :: "string \<Rightarrow> string option" where
  "re_search_tx [] = None"
| "re_search_tx (c # cs) =
     (if tx_match_at (c # cs) then Some (take 9 (c # cs)) else re_search_tx cs)"

definition execute_reward ::
  "environment \<Rightarrow> string \<Rightarrow> real \<Rightarrow> metadata \<Rightarrow> world \<Rightarrow> (error + string) \<times> world" where
  "execute_reward env own tt_amount md w =
     (let result = service env (length (calls w)) own tt_amount;
          w' = w\<lparr>calls := calls w @ [(own, tt_amount)]\<rparr>
      in case result of
           SubprocessError e \<Rightarrow>
             (Inl (DistributionError (''Failed to execute reward: '' @ e)), w')
         | Completed returncode out err \<Rightarrow>
             if returncode \<noteq> 0
               then (Inl (DistributionError (''TT reward failed for '' @ own @ '': '' @ err)), w')
             else (case re_search_tx out of
                     None \<Rightarrow>
                       (Inl (DistributionError
                          (''Could not parse transaction ID from output: '' @ out)), w')
                   | Some tx \<Rightarrow> (Inr tx, log_to_csv md tx w')))"

subsection \<open>Distribution\<close>

definition py_int :: "real \<Rightarrow> int" where
  "py_int x = (if 0 \<le> x then \<lfloor>x\<rfloor> else \<lceil>x\<rceil>)"

definition DEG_PER_TT :: int where
  "DEG_PER_TT = 360"

text \<open>The first loop of \<^verbatim>\<open>distribute\<close>, which collects \<^verbatim>\<open>valid_knus\<close>.\<close>

fun collect_valid ::
  "KNUDistributor \<Rightarrow> string \<Rightarrow> KNUEntry list \<Rightarrow> KNUEntry list \<Rightarrow> world
     \<Rightarrow> KNUEntry list \<times> world" where
  "collect_valid self k [] valid_knus w = (valid_knus, w)"
| "collect_valid self k (knu # rest) valid_knus w =
     (case validate_eligibility self knu of
        (is_valid, err) \<Rightarrow>
          if \<not> is_valid
            then collect_valid self k rest valid_knus (print (Skipping (knu_id knu) err) w)
          else if knot_id knu \<noteq> k
            then collect_valid self k rest valid_knus
                   (print (Skipping_other_knot (knu_id knu) (knot_id knu) k) w)
          else collect_valid self k rest (valid_knus @ [knu]) w)"

text \<open>
  The second loop, over \<^verbatim>\<open>enumerate(weighted_knus)\<close>; \<open>n\<close> is \<^verbatim>\<open>len(weighted_knus)\<close>, and
  the accumulators are \<^verbatim>\<open>total_distributed_deg\<close>, \<^verbatim>\<open>distributions\<close> and the world.
\<close>

fun distribute_loop ::
  "environment \<Rightarrow> string \<Rightarrow> bool \<Rightarrow> int \<Rightarrow> nat \<Rightarrow> (nat \<times> KNUEntry \<times> real) list
     \<Rightarrow> int \<Rightarrow> Distribution list \<Rightarrow> world \<Rightarrow> Distribution list \<times> world" where
  "distribute_loop env k dry_run pool_deg n [] total_distributed_deg distributions w =
     (distributions, w)"
| "distribute_loop env k dry_run pool_deg n ((i, knu, wgt) # rest)
       total_distributed_deg distributions w =
     (let allocated_deg = py_int (of_int pool_deg * wgt);
          allocated_deg =
            (if int i = int n - 1 then pool_deg - total_distributed_deg else allocated_deg);
          allocated_tt = of_int allocated_deg / of_int DEG_PER_TT;
          total_distributed_deg = total_distributed_deg + allocated_deg;
          dist = \<lparr>dist_knu_id = knu_id knu, dist_owner = owner knu, weight = wgt,
                  tokens_tt = allocated_tt, tokens_deg = allocated_deg, tx_id = []\<rparr>
      in if \<not> dry_run then
           (let md = \<lparr>md_timestamp = now env (length (calls w)), md_knot_id = k,
                      md_knu_id = knu_id knu, md_owner = owner knu, md_E_pred = E_pred knu,
                      md_dR_primary = dR_primary knu, md_dR_adj_sum = dR_adj_sum knu,
                      md_weight = wgt, md_tokens_tt = allocated_tt,
                      md_tokens_deg = allocated_deg, md_validated_by = validated_by knu\<rparr>
            in case execute_reward env (owner knu) allocated_tt md w of
                 (Inr tx, w') \<Rightarrow>
                   distribute_loop env k dry_run pool_deg n rest total_distributed_deg
                     (distributions @ [dist\<lparr>tx_id := tx\<rparr>])
                     (print (Rewarded (knu_id knu) (owner knu) allocated_tt allocated_deg tx) w')
               | (Inl e, w') \<Rightarrow>
                   distribute_loop env k dry_run pool_deg n rest total_distributed_deg
                     distributions (print (Failed_to_reward (knu_id knu) e) w'))
         else
           distribute_loop env k dry_run pool_deg n rest total_distributed_deg
             (distributions @ [dist])
             (print (Dry_run (knu_id knu) (owner knu) allocated_tt allocated_deg) w))"

definition distribute ::
  "KNUDistributor \<Rightarrow> environment \<Rightarrow> string \<Rightarrow> KNUEntry list \<Rightarrow> bool \<Rightarrow> world
     \<Rightarrow> (error + Distribution list) \<times> world" where
  "distribute self env k knus dry_run w =
     (case load_pool_config self k of
        Inl e \<Rightarrow> (Inl e, w)
      | Inr pool \<Rightarrow>
          (case collect_valid self k knus [] w of
             (valid_knus, w1) \<Rightarrow>
               if valid_knus = []
                 then (Inl (ValidationError ''No valid KNUs found for distribution''), w1)
               else
                 (let weighted_knus = calculate_weights self valid_knus None None;
                      pool_deg = py_int (pool_tt pool * of_int DEG_PER_TT)
                  in case distribute_loop env k dry_run pool_deg (length weighted_knus)
                            (zip [0..<length weighted_knus] weighted_knus) 0 [] w1 of
                       (distributions, w2) \<Rightarrow> (Inr distributions, w2))))"

section \<open>Auxiliary definitions\<close>

text \<open>
  The definitions of this section are not translations of a source function. They name
  what the statements and proofs below talk about, and each is related to the code by
  a lemma.
\<close>

subsection \<open>Closed forms of the weights\<close>





subsection \<open>The allocations of a run, without the effects\<close>

text \<open>
  The \<open>Distribution\<close> records that the second loop of \<^verbatim>\<open>distribute\<close> builds, in order,
  from the running total \<open>tot\<close>; the last record is the one with no successor.
\<close>

fun allocations :: "int \<Rightarrow> int \<Rightarrow> (KNUEntry \<times> real) list \<Rightarrow> Distribution list" where
  "allocations pool_deg tot [] = []"
| "allocations pool_deg tot ((knu, wgt) # rest) =
     (let allocated_deg =
            (if rest = [] then pool_deg - tot else py_int (of_int pool_deg * wgt))
      in \<lparr>dist_knu_id = knu_id knu, dist_owner = owner knu, weight = wgt,
           tokens_tt = of_int allocated_deg / of_int DEG_PER_TT,
           tokens_deg = allocated_deg, tx_id = []\<rparr>
         # allocations pool_deg (tot + allocated_deg) rest)"

text \<open>
  The transaction id that \<^verbatim>\<open>execute_reward\<close> returns on an outcome of the external call,
  \<open>None\<close> when it raises.
\<close>

definition reward_tx :: "proc_result \<Rightarrow> string option" where
  "reward_tx r =
     (case r of
        SubprocessError e \<Rightarrow> None
      | Completed returncode out err \<Rightarrow> if returncode \<noteq> 0 then None else re_search_tx out)"

text \<open>
  What a live run keeps of a list of allocations when the first of them is the \<open>c\<close>-th
  call of the service: the allocations whose call succeeds, each with its transaction id.
\<close>

fun executed :: "environment \<Rightarrow> nat \<Rightarrow> Distribution list \<Rightarrow> Distribution list" where
  "executed env c [] = []"
| "executed env c (d # ds) =
     (case reward_tx (service env c (dist_owner d) (tokens_tt d)) of
        Some tx \<Rightarrow> d\<lparr>tx_id := tx\<rparr> # executed env (Suc c) ds
      | None \<Rightarrow> executed env (Suc c) ds)"

subsection \<open>The identifier pattern, as the specification words it\<close>



subsection \<open>Example inputs\<close>

text \<open>
  A configuration with the pool of 150 TT for K06 that the test suite reads, and a pool
  of 1 TT for K01; every other key is absent, so the defaults apply.
\<close>

definition example_config :: pools_config where
  "example_config =
     \<lparr>pools = [''K06'' \<mapsto> \<lparr>pd_pool_tt = 150, pd_description = Some ''Data governance''\<rparr>,
               ''K01'' \<mapsto> \<lparr>pd_pool_tt = 1, pd_description = None\<rparr>],
      param_alpha = None, param_lambda_spillover = None, required_status = None,
      require_artifacts = None, require_validation = None\<rparr>"

definition example_self :: KNUDistributor where
  "example_self = load_configs example_config"

text \<open>An eligible record of K06 with the given owner, effort, impact and spillover.\<close>

definition example_knu :: "string \<Rightarrow> real \<Rightarrow> real \<Rightarrow> real \<Rightarrow> KNUEntry" where
  "example_knu own e dr adj =
     \<lparr>knu_id = ''KNU-K06-00-'' @ own, knot_id = ''K06'', owner = own, E_pred = e,
      dR_primary = dr, dR_adj_sum = adj, status = ''merged'',
      artifacts = [''evidence/001.md''], validated_by = ''knot_owner'',
      validated_at = ''2026-01-10T00:00:00Z''\<rparr>"

text \<open>The three records of the test suite's distribution test.\<close>

definition example_knus :: "KNUEntry list" where
  "example_knus =
     [example_knu ''alice'' 5 30 10, example_knu ''bob'' 3 15 5, example_knu ''charlie'' 2 5 0]"

text \<open>
  A service whose second call exits with status 1, whose fourth call exits with status 0
  and prints no identifier, and whose other calls succeed.
\<close>

definition example_env :: environment where
  "example_env =
     \<lparr>service = (\<lambda>n own amt. if n = 1 then Completed 1 [] ''insufficient balance''
                               else if n = 3 then Completed 0 ''Rewarded, id pending'' []
                               else Completed 0 ''Rewarded: TX-000042 ok'' []),
      now = (\<lambda>n. ''2026-01-10T00:00:00+00:00'')\<rparr>"


definition example_world :: world where
  "example_world = \<lparr>calls = [], ledger = None, console = []\<rparr>"

section \<open>Lemmas\<close>

subsection \<open>Weights\<close>










subsection \<open>The loops of distribute\<close>

lemma execute_reward_calls:
  "calls (snd (execute_reward env own amt md w)) = calls w @ [(own, amt)]"
  by (simp add: execute_reward_def log_to_csv_def Let_def split: proc_result.splits option.splits)

lemma execute_reward_Inr:
  "fst (execute_reward env own amt md w) = Inr tx
     \<longleftrightarrow> reward_tx (service env (length (calls w)) own amt) = Some tx"
  by (simp add: execute_reward_def reward_tx_def Let_def split: proc_result.splits option.splits)

lemma execute_reward_Inl:
  "(\<exists>e. fst (execute_reward env own amt md w) = Inl e)
     \<longleftrightarrow> reward_tx (service env (length (calls w)) own amt) = None"
  by (simp add: execute_reward_def reward_tx_def Let_def split: proc_result.splits option.splits)


lemma print_simps [simp]:
  "calls (print e w) = calls w" "ledger (print e w) = ledger w"
  "ledger_lines (print e w) = ledger_lines w" "console (print e w) = console w @ [e]"
  by (simp_all add: print_def ledger_lines_def)

lemma zip_upt_Cons:
  "length (x # xs) = n - i \<Longrightarrow> zip [i..<n] (x # xs) = (i, x) # zip [Suc i..<n] xs"
  by (cases "i < n") (simp_all add: upt_conv_Cons)

lemma last_index: "length (x # xs) = n - i \<Longrightarrow> (int i = int n - 1) = (xs = [])"
  by (cases xs) auto

lemma loop_dry:
  "length wk = n - i \<Longrightarrow>
   fst (distribute_loop env k True pool_deg n (zip [i..<n] wk) tot dists w)
     = dists @ allocations pool_deg tot wk"
proof (induction wk arbitrary: i tot dists w)
  case Nil
  then show ?case by simp
next
  case (Cons a wk)
  obtain knu wgt where a: "a = (knu, wgt)" by (cases a)
  from Cons.prems have len: "length wk = n - Suc i" by simp
  show ?case
    using Cons.prems
    by (simp add: a zip_upt_Cons last_index Let_def Cons.IH [OF len])
qed

lemma loop_dry_world:
  "length wk = n - i \<Longrightarrow>
   calls (snd (distribute_loop env k True pool_deg n (zip [i..<n] wk) tot dists w)) = calls w
   \<and> ledger (snd (distribute_loop env k True pool_deg n (zip [i..<n] wk) tot dists w)) = ledger w"
proof (induction wk arbitrary: i tot dists w)
  case Nil
  then show ?case by simp
next
  case (Cons a wk)
  obtain knu wgt where a: "a = (knu, wgt)" by (cases a)
  from Cons.prems have len: "length wk = n - Suc i" by simp
  show ?case
    using Cons.prems
    by (simp add: a zip_upt_Cons last_index Let_def Cons.IH [OF len])
qed

lemma loop_live:
  "length wk = n - i \<Longrightarrow>
   fst (distribute_loop env k False pool_deg n (zip [i..<n] wk) tot dists w)
     = dists @ executed env (length (calls w)) (allocations pool_deg tot wk)"
proof (induction wk arbitrary: i tot dists w)
  case Nil
  then show ?case by simp
next
  case (Cons a wk)
  obtain knu wgt where a: "a = (knu, wgt)" by (cases a)
  from Cons.prems have len: "length wk = n - Suc i" by simp
  define deg where "deg = (if wk = [] then pool_deg - tot else py_int (of_int pool_deg * wgt))"
  define md where "md = \<lparr>md_timestamp = now env (length (calls w)), md_knot_id = k,
                      md_knu_id = knu_id knu, md_owner = owner knu, md_E_pred = E_pred knu,
                      md_dR_primary = dR_primary knu, md_dR_adj_sum = dR_adj_sum knu,
                      md_weight = wgt, md_tokens_tt = of_int deg / of_int DEG_PER_TT,
                      md_tokens_deg = deg, md_validated_by = validated_by knu\<rparr>"
  obtain res w' where r:
    "execute_reward env (owner knu) (of_int deg / of_int DEG_PER_TT) md w = (res, w')"
    by (cases "execute_reward env (owner knu) (of_int deg / of_int DEG_PER_TT) md w")
  have c: "length (calls w') = Suc (length (calls w))"
    using execute_reward_calls [of env "owner knu" "of_int deg / of_int DEG_PER_TT" md w]
    by (simp add: r)
  show ?case
  proof (cases res)
    case (Inl e)
    then have "reward_tx (service env (length (calls w)) (owner knu) (of_int deg / of_int DEG_PER_TT)) = None"
      using execute_reward_Inl [of env "owner knu" "of_int deg / of_int DEG_PER_TT" md w]
      by (auto simp: r)
    then show ?thesis
      using Cons.prems c Inl
      by (simp add: a zip_upt_Cons last_index Let_def Cons.IH [OF len]
          deg_def [symmetric] md_def [symmetric] r)
  next
    case (Inr tx)
    then have "reward_tx (service env (length (calls w)) (owner knu) (of_int deg / of_int DEG_PER_TT)) = Some tx"
      using execute_reward_Inr [of env "owner knu" "of_int deg / of_int DEG_PER_TT" md w tx]
      by (auto simp: r)
    then show ?thesis
      using Cons.prems c Inr
      by (simp add: a zip_upt_Cons last_index Let_def Cons.IH [OF len]
          deg_def [symmetric] md_def [symmetric] r)
  qed
qed











lemma collect_valid_fst:
  "fst (collect_valid self k knus valid w)
     = valid @ filter (\<lambda>knu. fst (validate_eligibility self knu) \<and> knot_id knu = k) knus"
  by (induction knus arbitrary: valid w) (auto split: prod.splits)

lemma collect_valid_world:
  "calls (snd (collect_valid self k knus valid w)) = calls w
   \<and> ledger (snd (collect_valid self k knus valid w)) = ledger w"
  by (induction knus arbitrary: valid w) (auto split: prod.splits)

subsection \<open>Allocations\<close>

lemma allocations_length [simp]: "length (allocations p t wk) = length wk"
  by (induction p t wk rule: allocations.induct) (simp_all add: Let_def)


lemma allocations_tx_id: "d \<in> set (allocations p t wk) \<Longrightarrow> tx_id d = []"
  by (induction p t wk rule: allocations.induct) (auto simp add: Let_def)







lemma distribute_result:
  assumes "load_pool_config self k = Inr pool"
      and "fst (collect_valid self k knus [] w) = valid" and "valid \<noteq> []"
  shows "fst (distribute self env k knus True w)
           = Inr (allocations (py_int (pool_tt pool * 360)) 0
                    (calculate_weights self valid None None))"
    and "fst (distribute self env k knus False w)
           = Inr (executed env (length (calls w))
                    (allocations (py_int (pool_tt pool * 360)) 0
                       (calculate_weights self valid None None)))"
proof -
  obtain w1 where cv: "collect_valid self k knus [] w = (valid, w1)"
    using assms(2) by (cases "collect_valid self k knus [] w") simp
  have c: "calls w1 = calls w"
    using collect_valid_world [of self k knus "[]" w] by (simp add: cv)
  let ?wk = "calculate_weights self valid None None"
  have len: "length ?wk = length ?wk - 0" by simp
  show "fst (distribute self env k knus True w)
           = Inr (allocations (py_int (pool_tt pool * 360)) 0 ?wk)"
    using loop_dry [OF len, of env k "py_int (pool_tt pool * 360)" 0 "[]" w1] assms(3)
    by (simp add: distribute_def assms(1) cv Let_def DEG_PER_TT_def case_prod_beta)
  show "fst (distribute self env k knus False w)
           = Inr (executed env (length (calls w))
                    (allocations (py_int (pool_tt pool * 360)) 0 ?wk))"
    using loop_live [OF len, of env k "py_int (pool_tt pool * 360)" 0 "[]" w1] assms(3)
    by (simp add: distribute_def assms(1) cv Let_def DEG_PER_TT_def c case_prod_beta)
qed

lemma distribute_error:
  "fst (distribute self env k knus dry_run w) = Inl e \<longleftrightarrow>
     (load_pool_config self k = Inl e
      \<or> (\<exists>pool. load_pool_config self k = Inr pool)
         \<and> fst (collect_valid self k knus [] w) = []
         \<and> e = ValidationError ''No valid KNUs found for distribution'')"
  by (auto simp add: distribute_def Let_def split: sum.splits prod.splits)

subsection \<open>The world after a run\<close>

lemma distribute_valid:
  assumes "fst (distribute self env k knus dry_run w) = Inr ds"
  obtains pool where "load_pool_config self k = Inr pool"
    and "fst (collect_valid self k knus [] w) \<noteq> []"
proof (cases "load_pool_config self k")
  case (Inl e)
  then show ?thesis using assms by (simp add: distribute_def)
next
  case (Inr pool)
  have "fst (collect_valid self k knus [] w) \<noteq> []"
    using assms distribute_error [of self env k knus dry_run w
        "ValidationError ''No valid KNUs found for distribution''"]
    by (auto simp add: Inr)
  with Inr show ?thesis by (rule that)
qed



lemma distribute_dry_world:
  "calls (snd (distribute self env k knus True w)) = calls w
   \<and> ledger (snd (distribute self env k knus True w)) = ledger w"
proof (cases "load_pool_config self k")
  case (Inl e)
  then show ?thesis by (simp add: distribute_def)
next
  case (Inr pool)
  obtain valid w1 where cv: "collect_valid self k knus [] w = (valid, w1)"
    by (cases "collect_valid self k knus [] w")
  have l: "calls w1 = calls w \<and> ledger w1 = ledger w"
    using collect_valid_world [of self k knus "[]" w] by (simp add: cv)
  let ?wk = "calculate_weights self valid None None"
  have len: "length ?wk = length ?wk - 0" by simp
  show ?thesis
    using loop_dry_world [OF len, of env k _ 0 "[]" w1]
    by (simp add: distribute_def Inr cv Let_def case_prod_beta l)
qed

subsection \<open>What a live run keeps\<close>


lemma executed_subseq:
  "\<forall>d \<in> set ds. tx_id d = [] \<Longrightarrow>
   subseq (map (\<lambda>d. d\<lparr>tx_id := []\<rparr>) (executed env c ds)) ds"
proof (induction ds arbitrary: c)
  case Nil
  then show ?case by simp
next
  case (Cons x ds)
  have x: "x\<lparr>tx_id := []\<rparr> = x" using Cons.prems by simp
  have "subseq (map (\<lambda>d. d\<lparr>tx_id := []\<rparr>) (executed env (Suc c) ds)) ds"
    using Cons.prems by (intro Cons.IH) simp
  then show ?case
    by (auto simp add: x split: option.splits)
qed

subsection \<open>The search for the identifier\<close>





section \<open>The claims\<close>

subsection \<open>C1: the deg amounts sum to the pool\<close>




subsection \<open>C2: the weights sum to one\<close>




subsection \<open>C3: a failed execution does not stop the batch\<close>



subsection \<open>C4: zero effort leaves the impact share\<close>




subsection \<open>C5: the spillover coefficient\<close>




subsection \<open>C6: the eligibility rules, in order\<close>



subsection \<open>C7: what execute\_reward returns\<close>



subsection \<open>C8: a single eligible record\<close>




subsection \<open>C9: a dry run and a live run compute the same allocations\<close>

text \<open>
  C9. A dry run and a live run of \<^verbatim>\<open>distribute\<close> fail on the same inputs with the same
  error. A dry run calls no service and leaves the ledger as it is, and the records it
  returns have an empty transaction id. Whatever the outcomes of the external calls,
  the live run returns \<open>executed\<close> of the dry run's list: the records of the dry run
  whose call succeeds, in order, changed in the transaction id only. So the weight,
  \<^verbatim>\<open>tokens_tt\<close> and \<^verbatim>\<open>tokens_deg\<close> of a record do not depend on the mode or on the failure
  of an earlier allocation, the remainder of the last record included.
\<close>

theorem distribute_dry_run_live:
  "(fst (distribute self env k knus True w) = Inl e
      \<longleftrightarrow> fst (distribute self env k knus False w) = Inl e)
   \<and> calls (snd (distribute self env k knus True w)) = calls w
   \<and> ledger (snd (distribute self env k knus True w)) = ledger w
   \<and> (fst (distribute self env k knus True w) = Inr allocs \<longrightarrow>
        (\<forall>d \<in> set allocs. tx_id d = [])
        \<and> fst (distribute self env k knus False w)
            = Inr (executed env (length (calls w)) allocs)
        \<and> subseq (map (\<lambda>d. d\<lparr>tx_id := []\<rparr>) (executed env (length (calls w)) allocs))
             allocs)"
proof (intro conjI impI)
  show "fst (distribute self env k knus True w) = Inl e
      \<longleftrightarrow> fst (distribute self env k knus False w) = Inl e"
    by (simp only: distribute_error)
  show "calls (snd (distribute self env k knus True w)) = calls w"
    by (simp add: distribute_dry_world)
  show "ledger (snd (distribute self env k knus True w)) = ledger w"
    by (simp add: distribute_dry_world)
next
  assume r: "fst (distribute self env k knus True w) = Inr allocs"
  define valid where "valid = fst (collect_valid self k knus [] w)"
  obtain pool where pool: "load_pool_config self k = Inr pool" and v: "valid \<noteq> []"
    using distribute_valid [OF r] by (auto simp add: valid_def)
  have a: "allocs = allocations (py_int (pool_tt pool * 360)) 0
                      (calculate_weights self valid None None)"
    using distribute_result(1) [OF pool valid_def [symmetric] v, of env] r by simp
  show tx: "\<forall>d \<in> set allocs. tx_id d = []"
    by (auto simp add: a allocations_tx_id)
  show "fst (distribute self env k knus False w) = Inr (executed env (length (calls w)) allocs)"
    using distribute_result(2) [OF pool valid_def [symmetric] v, of env] by (simp only: a)
  show "subseq (map (\<lambda>d. d\<lparr>tx_id := []\<rparr>) (executed env (length (calls w)) allocs)) allocs"
    by (rule executed_subseq [OF tx])
qed

text \<open>
  The theorem at the three records of the test suite, with a service whose second call
  fails: the live run returns the first and the third record of the dry run, with
  their transaction ids, and the third is still allocated the remainder 6528.
\<close>

theorem distribute_dry_run_live_witness:
  "fst (distribute example_self example_env ''K06'' example_knus True example_world)
     = Inr [\<lparr>dist_knu_id = ''KNU-K06-00-alice'', dist_owner = ''alice'', weight = 53 / 92,
             tokens_tt = 31108 / 360, tokens_deg = 31108, tx_id = []\<rparr>,
            \<lparr>dist_knu_id = ''KNU-K06-00-bob'', dist_owner = ''bob'', weight = 697 / 2300,
             tokens_tt = 16364 / 360, tokens_deg = 16364, tx_id = []\<rparr>,
            \<lparr>dist_knu_id = ''KNU-K06-00-charlie'', dist_owner = ''charlie'',
             weight = 139 / 1150, tokens_tt = 6528 / 360, tokens_deg = 6528, tx_id = []\<rparr>]
   \<and> fst (distribute example_self example_env ''K06'' example_knus False example_world)
     = Inr [\<lparr>dist_knu_id = ''KNU-K06-00-alice'', dist_owner = ''alice'', weight = 53 / 92,
             tokens_tt = 31108 / 360, tokens_deg = 31108, tx_id = ''TX-000042''\<rparr>,
            \<lparr>dist_knu_id = ''KNU-K06-00-charlie'', dist_owner = ''charlie'',
             weight = 139 / 1150, tokens_tt = 6528 / 360, tokens_deg = 6528,
             tx_id = ''TX-000042''\<rparr>]"
proof -
  let ?allocs = "[\<lparr>dist_knu_id = ''KNU-K06-00-alice'', dist_owner = ''alice'', weight = 53 / 92,
             tokens_tt = 31108 / 360, tokens_deg = 31108, tx_id = []\<rparr>,
            \<lparr>dist_knu_id = ''KNU-K06-00-bob'', dist_owner = ''bob'', weight = 697 / 2300,
             tokens_tt = 16364 / 360, tokens_deg = 16364, tx_id = []\<rparr>,
            \<lparr>dist_knu_id = ''KNU-K06-00-charlie'', dist_owner = ''charlie'',
             weight = 139 / 1150, tokens_tt = 6528 / 360, tokens_deg = 6528, tx_id = []\<rparr>]"
  have h: "fst (distribute example_self example_env ''K06'' example_knus True example_world)
             = Inr ?allocs"
    by code_simp
  have e: "executed example_env (length (calls example_world)) ?allocs
     = [\<lparr>dist_knu_id = ''KNU-K06-00-alice'', dist_owner = ''alice'', weight = 53 / 92,
             tokens_tt = 31108 / 360, tokens_deg = 31108, tx_id = ''TX-000042''\<rparr>,
            \<lparr>dist_knu_id = ''KNU-K06-00-charlie'', dist_owner = ''charlie'',
             weight = 139 / 1150, tokens_tt = 6528 / 360, tokens_deg = 6528,
             tx_id = ''TX-000042''\<rparr>]"
    by code_simp
  note t = distribute_dry_run_live [of example_self example_env "''K06''" example_knus
      example_world _ ?allocs]
  note t4 = mp [OF conjunct2 [OF conjunct2 [OF conjunct2 [OF t]]] h]
  have l: "fst (distribute example_self example_env ''K06'' example_knus False example_world)
             = Inr (executed example_env (length (calls example_world)) ?allocs)"
    by (rule conjunct1 [OF conjunct2 [OF t4]])
  show ?thesis
    by (rule conjI [OF h]) (simp only: l e)
qed

subsection \<open>C10: no deg amount is negative\<close>




end
